theory Spec2Isabelle
  imports Main "HOL-Library.AList"
begin

section \<open>JavaScript values\<close>

text \<open>
  The values that travel between the route layer, the item repository and the store are
  plain JavaScript data: \<open>null\<close>, booleans, numbers, strings, arrays and objects. An
  object is an association list of its own properties in insertion order; a property that
  is absent reads as \<open>undefined\<close>, which is \<open>None\<close> here.
\<close>

datatype json =
    JNull
  | JBool bool
  | JNum int
  | JStr string
  | JArr "json list"
  | JObj "(string \<times> json) list"

type_synonym obj = "(string \<times> json) list"

text \<open>Reading a property: \<open>o.k\<close>.\<close>

definition get_prop :: "string \<Rightarrow> obj \<Rightarrow> json option" where
  "get_prop k ob = map_of ob k"

text \<open>
  \<open>Object.assign(target, source)\<close>: every own property of the source is written to the
  target, in the source's order; a key already present keeps its place.
\<close>

definition Object_assign :: "obj \<Rightarrow> obj \<Rightarrow> obj" where
  "Object_assign target source = fold (\<lambda>(k, v) acc. AList.update k v acc) source target"

text \<open>JavaScript truthiness, as the operator \<open>&&\<close> tests it.\<close>

fun truthy :: "json \<Rightarrow> bool" where
  "truthy JNull = False"
| "truthy (JBool b) = b"
| "truthy (JNum n) = (n \<noteq> 0)"
| "truthy (JStr s) = (s \<noteq> [])"
| "truthy (JArr _) = True"
| "truthy (JObj _) = True"

text \<open>
  The decimal rendering of a non-negative integer, which is what a template literal
  \<open>`${n}`\<close> produces for an allocator-issued counter.
\<close>

definition digit_char :: "nat \<Rightarrow> char" where
  "digit_char d = ''0123456789'' ! d"

fun decimal :: "nat \<Rightarrow> string" where
  "decimal n = (if n < 10 then [digit_char n] else decimal (n div 10) @ [digit_char (n mod 10)])"

declare decimal.simps [simp del]

section \<open>The item repository: \<open>api/dynamo/items.js\<close>\<close>

subsection \<open>Item types and composite keys\<close>

text \<open>The \<open>types\<close> table: the names the API uses and the type strings they stand for.\<close>

definition types :: "(string \<times> string) list" where
  "types =
    [(''collection'', ''collection''),
     (''record'', ''record''),
     (''picture'', ''picture''),
     (''story'', ''story''),
     (''screen'', ''story-screen''),
     (''message'', ''story-message''),
     (''promotion'', ''story-promotion''),
     (''component'', ''component'')]"

record owner =
  owner_type :: string
  owner_id :: string

definition uniqueIDForTypeAndID :: "string \<Rightarrow> string \<Rightarrow> string" where
  "uniqueIDForTypeAndID type ident = type @ ''-'' @ ident"

definition uniqueIDForOwner :: "owner \<Rightarrow> string" where
  "uniqueIDForOwner ow = uniqueIDForTypeAndID (owner_type ow) (owner_id ow)"

text \<open>
  \<open>R.split(sep)\<close> is \<open>String.prototype.split\<close> with a one-character separator: the
  pieces between the separators, of which there is always at least one.
\<close>

fun R_split :: "char \<Rightarrow> string \<Rightarrow> string list" where
  "R_split sep [] = [[]]"
| "R_split sep (c # cs) =
     (if c = sep then [] # R_split sep cs
      else (case R_split sep cs of
              [] \<Rightarrow> [[c]]
            | p # ps \<Rightarrow> (c # p) # ps))"

text \<open>
  \<open>formatID = R.pipe(R.split('-'), R.last)\<close>. \<open>R.last\<close> is \<open>undefined\<close> on an
  empty list only, and the split is never empty (\<open>R_split_not_Nil\<close> below), so the
  result is always the last piece.
\<close>

definition formatID :: "string \<Rightarrow> string" where
  "formatID s = last (R_split (CHR ''-'') s)"

subsection \<open>Errors\<close>

text \<open>
  A promise that rejects and a function that throws are results of the form \<open>Inl e\<close>.
\<close>

datatype error =
    SyntaxError
  | TypeError
  | ValidationException
  | Boom nat

text \<open>
  \<open>SyntaxError\<close> is what \<open>JSON.parse\<close> throws on a string that is not JSON,
  \<open>TypeError\<close> what a call on \<open>undefined\<close> throws, \<open>ValidationException\<close> what
  the store answers to a request it refuses (an item without its key attributes, an empty
  update expression, an update of a key attribute), and \<open>Boom n\<close> an HTTP error of the
  route layer with status \<open>n\<close>.
\<close>

subsection \<open>The store\<close>

text \<open>
  The items table is an external service. It is modelled as a reliable table of items under
  their primary key \<open>(ownerID, id)\<close>; throttling and network failures are left out. The
  store lists the items of an owner by sort key; the model keeps them in the order they were
  written, and no property below depends on the order of a listing. Every call that reaches the store is written to
  \<open>calls\<close>, so that "no store call occurred" can be stated.
\<close>

datatype store_op = OpIncrementID | OpQuery | OpGetItem | OpPutItem | OpUpdateItem

type_synonym item_key = "string \<times> string"

record store =
  rows :: "(item_key \<times> obj) list"
  counters :: "(string \<times> nat) list"
  calls :: "store_op list"

definition called :: "store_op \<Rightarrow> store \<Rightarrow> store" where
  "called op st = st\<lparr>calls := calls st @ [op]\<rparr>"

definition key_attributes :: "item_key \<Rightarrow> obj" where
  "key_attributes k = [(''ownerID'', JStr (fst k)), (''id'', JStr (snd k))]"

definition item_key_of :: "obj \<Rightarrow> item_key option" where
  "item_key_of item =
     (case (get_prop ''ownerID'' item, get_prop ''id'' item) of
        (Some (JStr o_id), Some (JStr i_id)) \<Rightarrow> Some (o_id, i_id)
      | _ \<Rightarrow> None)"

text \<open>
  \<open>query\<close> with the key condition \<open>ownerID = :ownerID\<close> on the table, and with
  \<open>ownerID = :ownerID and #type = :type\<close> on the index \<open>Type\<close>; the result is the
  \<open>Items\<close> of the answer. Both ask for one page (\<open>Pages: 1\<close>), and the matching
  items are taken to fit that page.
\<close>

definition query_owner :: "store \<Rightarrow> string \<Rightarrow> obj list \<times> store" where
  "query_owner st o_id =
     (map snd (filter (\<lambda>(k, item). fst k = o_id) (rows st)), called OpQuery st)"

definition query_type :: "store \<Rightarrow> string \<Rightarrow> string \<Rightarrow> obj list \<times> store" where
  "query_type st o_id type =
     (map snd (filter (\<lambda>(k, item). fst k = o_id \<and> get_prop ''type'' item = Some (JStr type))
        (rows st)),
      called OpQuery st)"

text \<open>\<open>getItem\<close>: the \<open>Item\<close> of the answer, \<open>undefined\<close> when no item has the key.\<close>

definition getItem :: "store \<Rightarrow> item_key \<Rightarrow> obj option \<times> store" where
  "getItem st k = (map_of (rows st) k, called OpGetItem st)"

text \<open>\<open>putItem\<close> writes the item under the key its attributes give, replacing any item there.\<close>

definition putItem :: "store \<Rightarrow> obj \<Rightarrow> (error + unit) \<times> store" where
  "putItem st item =
     (case item_key_of item of
        None \<Rightarrow> (Inl ValidationException, called OpPutItem st)
      | Some k \<Rightarrow> (Inr (), called OpPutItem (st\<lparr>rows := AList.update k item (rows st)\<rparr>)))"

text \<open>
  \<open>updateItem\<close> with an update expression of \<open>SET\<close> actions, no condition expression
  and \<open>ReturnValues: 'ALL_NEW'\<close>. The store refuses a request whose update expression is
  empty, and one that sets an attribute of the primary key; the promise then rejects and
  nothing is written. Otherwise the update is an upsert: when no item has the key, the
  actions are applied to an item that holds the key attributes only. The result is the
  \<open>Attributes\<close> of the answer, that is the whole item after the update.
\<close>

datatype update_action = SetAttr string json

fun action_attribute :: "update_action \<Rightarrow> string" where
  "action_attribute (SetAttr k v) = k"

fun apply_action :: "update_action \<Rightarrow> obj \<Rightarrow> obj" where
  "apply_action (SetAttr k v) item = AList.update k v item"

definition sets_key_attribute :: "update_action list \<Rightarrow> bool" where
  "sets_key_attribute actions =
     list_ex (\<lambda>a. action_attribute a = ''ownerID'' \<or> action_attribute a = ''id'') actions"

definition updateItem ::
  "store \<Rightarrow> item_key \<Rightarrow> update_action list \<Rightarrow> (error + obj) \<times> store" where
  "updateItem st k actions =
     (if actions = [] \<or> sets_key_attribute actions
      then (Inl ValidationException, called OpUpdateItem st)
      else (let old = (case map_of (rows st) k of None \<Rightarrow> key_attributes k | Some item \<Rightarrow> item);
                new = fold apply_action actions old
            in (Inr new, called OpUpdateItem (st\<lparr>rows := AList.update k new (rows st)\<rparr>))))"

subsection \<open>The ID allocator\<close>

text \<open>
  Modelled from the spec: \<open>incrementIDForType\<close> of \<open>./ids\<close>, which is not among the
  sources. It atomically increments the counter of the item type and returns the new counter
  value; a type that has no counter yet counts from zero.
\<close>

definition counter_of :: "store \<Rightarrow> string \<Rightarrow> nat" where
  "counter_of st type = (case map_of (counters st) type of None \<Rightarrow> 0 | Some n \<Rightarrow> n)"

definition incrementIDForType :: "store \<Rightarrow> string \<Rightarrow> nat \<times> store" where
  "incrementIDForType st type =
     (let n = Suc (counter_of st type)
      in (n, called OpIncrementID (st\<lparr>counters := AList.update type n (counters st)\<rparr>)))"

subsection \<open>Reading\<close>

text \<open>
  \<open>JSON.stringify\<close> and \<open>JSON.parse\<close> belong to the language, not to the repository:
  the repository functions take them as the parameters \<open>stringify\<close> and \<open>parse\<close>, where
  \<open>parse s = None\<close> stands for the \<open>SyntaxError\<close> that \<open>JSON.parse\<close> throws.
\<close>

type_synonym json_parse = "string \<Rightarrow> json option"
type_synonym json_stringify = "json \<Rightarrow> string"

text \<open>
  \<open>formatItem\<close> copies the item, replaces \<open>id\<close> by \<open>formatID(item.id)\<close> and, when
  \<open>item.contentJSON\<close> is truthy, replaces \<open>contentJSON\<close> by its parse if it is a string
  and by itself otherwise. \<open>R.split\<close> on an \<open>id\<close> that is not a string throws.
\<close>

definition formatItem :: "json_parse \<Rightarrow> obj \<Rightarrow> error + obj" where
  "formatItem parse item =
     (case get_prop ''id'' item of
        Some (JStr s) \<Rightarrow>
          (let formatted =
                 Object_assign (Object_assign [] item) [(''id'', JStr (formatID s))]
           in (case get_prop ''contentJSON'' item of
                 None \<Rightarrow> Inr formatted
               | Some c \<Rightarrow>
                   if \<not> truthy c then Inr formatted
                   else (case c of
                           JStr serialized \<Rightarrow>
                             (case parse serialized of
                                None \<Rightarrow> Inl SyntaxError
                              | Some v \<Rightarrow> Inr (Object_assign formatted [(''contentJSON'', v)]))
                         | _ \<Rightarrow> Inr (Object_assign formatted [(''contentJSON'', c)]))))
      | _ \<Rightarrow> Inl TypeError)"

text \<open>\<open>items.map(formatItem)\<close>: the first item that throws rejects the whole result.\<close>

fun map_formatItem :: "json_parse \<Rightarrow> obj list \<Rightarrow> error + obj list" where
  "map_formatItem parse [] = Inr []"
| "map_formatItem parse (item # items) =
     (case formatItem parse item of
        Inl e \<Rightarrow> Inl e
      | Inr item' \<Rightarrow>
          (case map_formatItem parse items of
             Inl e \<Rightarrow> Inl e
           | Inr items' \<Rightarrow> Inr (item' # items')))"

definition readAllItemsForOwner ::
  "json_parse \<Rightarrow> store \<Rightarrow> owner \<Rightarrow> (error + obj list) \<times> store" where
  "readAllItemsForOwner parse st ow =
     (let (items, st') = query_owner st (uniqueIDForOwner ow)
      in (map_formatItem parse items, st'))"

definition readAllItemsForType ::
  "json_parse \<Rightarrow> store \<Rightarrow> owner \<Rightarrow> string \<Rightarrow> (error + obj list) \<times> store" where
  "readAllItemsForType parse st ow type =
     (let (items, st') = query_type st (uniqueIDForOwner ow) type
      in (map_formatItem parse items, st'))"

text \<open>\<open>readItem\<close>: \<open>R.unless(R.isNil, formatItem)\<close> leaves an absent item absent.\<close>

definition readItem ::
  "json_parse \<Rightarrow> store \<Rightarrow> owner \<Rightarrow> string \<Rightarrow> string \<Rightarrow> (error + obj option) \<times> store" where
  "readItem parse st ow type ident =
     (let (found, st') = getItem st (uniqueIDForOwner ow, uniqueIDForTypeAndID type ident)
      in (case found of
            None \<Rightarrow> (Inr None, st')
          | Some item \<Rightarrow>
              (case formatItem parse item of
                 Inl e \<Rightarrow> (Inl e, st')
               | Inr item' \<Rightarrow> (Inr (Some item'), st'))))"

subsection \<open>Writing\<close>

text \<open>
  \<open>createItem\<close>: \<open>tags\<close> and \<open>name\<close> are \<open>None\<close> when the caller leaves them out,
  and then take their defaults. The counter is a number; the template literal of
  \<open>uniqueIDForTypeAndID\<close> renders it in decimal. The result is \<open>{ type, id }\<close>.
\<close>

definition createItem ::
  "json_stringify \<Rightarrow> store \<Rightarrow> owner \<Rightarrow> string \<Rightarrow> json option \<Rightarrow> json option \<Rightarrow> json \<Rightarrow>
     (error + string \<times> nat) \<times> store" where
  "createItem stringify st ow type tags name contentJSON =
     (let (counter, st1) = incrementIDForType st type;
          (put, st2) =
            putItem st1
              [(''ownerID'', JStr (uniqueIDForOwner ow)),
               (''id'', JStr (uniqueIDForTypeAndID type (decimal counter))),
               (''type'', JStr type),
               (''tags'', (case tags of None \<Rightarrow> JArr [] | Some t \<Rightarrow> t)),
               (''name'', (case name of None \<Rightarrow> JStr ''Untitled'' | Some n \<Rightarrow> n)),
               (''contentJSON'', JStr (stringify contentJSON))]
      in (case put of
            Inl e \<Rightarrow> (Inl e, st2)
          | Inr _ \<Rightarrow> (Inr (type, counter), st2)))"

definition updateNameForItem ::
  "store \<Rightarrow> owner \<Rightarrow> string \<Rightarrow> string \<Rightarrow> json \<Rightarrow> (error + obj) \<times> store" where
  "updateNameForItem st ow type ident newName =
     updateItem st (uniqueIDForOwner ow, uniqueIDForTypeAndID type ident)
       [SetAttr ''name'' newName]"

definition updateTagsForItem ::
  "store \<Rightarrow> owner \<Rightarrow> string \<Rightarrow> string \<Rightarrow> json \<Rightarrow> (error + obj) \<times> store" where
  "updateTagsForItem st ow type ident newTags =
     updateItem st (uniqueIDForOwner ow, uniqueIDForTypeAndID type ident)
       [SetAttr ''tags'' newTags]"

text \<open>
  \<open>dynamodbUpdateExpression.getUpdateExpression({}, changes)\<close> belongs to an external
  library. Against the empty original every property of \<open>changes\<close> is new, and the
  expression sets each of them to its value, which is how the specification describes the
  changeset ("only submitted fields are modified, others untouched"). For the empty
  changeset the expression is empty, and the store refuses the request.
\<close>

definition getUpdateExpression :: "obj \<Rightarrow> update_action list" where
  "getUpdateExpression changes = map (\<lambda>(k, v). SetAttr k v) changes"

definition updateItemWithChanges ::
  "store \<Rightarrow> owner \<Rightarrow> string \<Rightarrow> string \<Rightarrow> obj \<Rightarrow> (error + obj) \<times> store" where
  "updateItemWithChanges st ow type ident changes =
     updateItem st (uniqueIDForOwner ow, uniqueIDForTypeAndID type ident)
       (getUpdateExpression changes)"

section \<open>The route layer\<close>

subsection \<open>Requests and replies\<close>

text \<open>
  A request that has been matched against a route carries the path parameters of that route.
  Every path has \<open>{ownerType}\<close> and \<open>{ownerID}\<close>; \<open>itemType\<close> and \<open>item_id\<close> (the
  parameter \<open>id\<close>) are read only by routes whose path has them. \<open>req_payload\<close> is the
  parsed body, \<open>JNull\<close> without one, and \<open>req_pre\<close> is \<open>request.pre\<close>, the values
  that the prerequisites have assigned so far.
\<close>

record params =
  ownerType :: string
  ownerID :: string
  itemType :: string
  item_id :: string

record request =
  req_params :: params
  req_payload :: json
  req_pre :: obj

text \<open>
  What a prerequisite or handler does with \<open>reply\<close>: it passes a value (\<open>None\<close> for
  \<open>undefined\<close>), a value with status 201 and a \<open>Location\<close> header, or an error; a
  thrown exception or a rejected promise is an error too. \<open>NoReply\<close> is a method that
  returns without calling \<open>reply\<close>, so that the request never completes.
\<close>

datatype reply =
    Reply "json option"
  | ReplyCreated json string
  | ReplyError error
  | NoReply

datatype response =
    Response nat "json option" "string option"
  | NoResponse

text \<open>
  \<open>Boom.unauthorized\<close> has status 401 and \<open>Boom.notFound\<close> 404; the framework turns
  any other error into 500 and a failed validation into 400.
\<close>

definition Boom_unauthorized :: error where
  "Boom_unauthorized = Boom 401"

definition Boom_notFound :: error where
  "Boom_notFound = Boom 404"

fun status_of_error :: "error \<Rightarrow> nat" where
  "status_of_error (Boom n) = n"
| "status_of_error _ = 500"

fun response_of_reply :: "reply \<Rightarrow> response" where
  "response_of_reply (Reply v) = Response 200 v None"
| "response_of_reply (ReplyCreated v location) = Response 201 (Some v) (Some location)"
| "response_of_reply (ReplyError e) = Response (status_of_error e) None None"
| "response_of_reply NoReply = NoResponse"

text \<open>
  Destructuring \<open>pre: { owner, type }\<close>. Reading \<open>owner.type\<close> of an owner that was never
  assigned throws; a \<open>type\<close> that was never assigned is \<open>undefined\<close>, which a template
  literal renders as the text \<open>undefined\<close>.
\<close>

definition pre_owner :: "request \<Rightarrow> string \<Rightarrow> owner option" where
  "pre_owner req name =
     (case get_prop name (req_pre req) of
        Some (JObj ob) \<Rightarrow>
          (case (get_prop ''type'' ob, get_prop ''id'' ob) of
             (Some (JStr t), Some (JStr i)) \<Rightarrow> Some \<lparr>owner_type = t, owner_id = i\<rparr>
           | _ \<Rightarrow> None)
      | _ \<Rightarrow> None)"

definition pre_type :: "request \<Rightarrow> string" where
  "pre_type req =
     (case get_prop ''type'' (req_pre req) of
        Some (JStr t) \<Rightarrow> t
      | _ \<Rightarrow> ''undefined'')"

subsection \<open>Payload validation\<close>

text \<open>
  The schemas, read as predicates on the parsed body. A string of the schema language is not
  empty, and an object with declared keys allows no other key. Type conversion by the
  validator is left out.
\<close>

fun joi_string :: "json \<Rightarrow> bool" where
  "joi_string (JStr s) = (s \<noteq> [])"
| "joi_string _ = False"

fun joi_object :: "json \<Rightarrow> bool" where
  "joi_object (JObj _) = True"
| "joi_object _ = False"

fun joi_string_array :: "json \<Rightarrow> bool" where
  "joi_string_array (JArr xs) = list_all joi_string xs"
| "joi_string_array _ = False"

definition optional :: "string \<Rightarrow> (json \<Rightarrow> bool) \<Rightarrow> obj \<Rightarrow> bool" where
  "optional k P ob = (case get_prop k ob of None \<Rightarrow> True | Some v \<Rightarrow> P v)"

definition required :: "string \<Rightarrow> (json \<Rightarrow> bool) \<Rightarrow> obj \<Rightarrow> bool" where
  "required k P ob = (case get_prop k ob of None \<Rightarrow> False | Some v \<Rightarrow> P v)"

definition only_keys :: "string list \<Rightarrow> obj \<Rightarrow> bool" where
  "only_keys ks ob = list_all (\<lambda>k. k \<in> set ks) (map fst ob)"

fun itemValidator :: "json \<Rightarrow> bool" where
  "itemValidator (JObj ob) =
     (only_keys [''contentJSON'', ''name'', ''tags''] ob \<and>
      required ''contentJSON'' joi_object ob \<and>
      optional ''name'' joi_string ob \<and>
      optional ''tags'' joi_string_array ob)"
| "itemValidator _ = False"

fun previewDestinationValidator :: "json \<Rightarrow> bool" where
  "previewDestinationValidator (JObj ob) =
     (only_keys [''device'', ''framework''] ob \<and>
      optional ''device'' joi_string ob \<and>
      optional ''framework'' joi_string ob)"
| "previewDestinationValidator _ = False"

fun patchValidator :: "json \<Rightarrow> bool" where
  "patchValidator (JObj ob) =
     (only_keys [''version'', ''contentJSON'', ''name'', ''rawTags'', ''tags'',
        ''previewDestination''] ob \<and>
      optional ''version'' (\<lambda>v. v = JNum 1) ob \<and>
      optional ''contentJSON'' joi_object ob \<and>
      optional ''name'' joi_string ob \<and>
      optional ''rawTags'' joi_string ob \<and>
      optional ''tags'' joi_string_array ob \<and>
      optional ''previewDestination'' previewDestinationValidator ob)"
| "patchValidator _ = False"

definition ownerValidator :: "params \<Rightarrow> bool" where
  "ownerValidator ps = (ownerType ps \<noteq> [] \<and> ownerID ps \<noteq> [])"

datatype validation = NoValidation | ValidateCreate | ValidatePatch

fun valid :: "validation \<Rightarrow> request \<Rightarrow> bool" where
  "valid NoValidation req = True"
| "valid ValidateCreate req =
     (ownerValidator (req_params req) \<and> itemType (req_params req) \<noteq> [] \<and>
      itemValidator (req_payload req))"
| "valid ValidatePatch req = patchValidator (req_payload req)"

subsection \<open>Handlers\<close>

definition handlers_owner :: "request \<Rightarrow> reply" where
  "handlers_owner req =
     Reply (Some (JObj [(''type'', JStr (ownerType (req_params req))),
                        (''id'', JStr (ownerID (req_params req)))]))"

text \<open>
  \<open>ensureOwnerExists\<close> reads \<open>pre.user\<close>, which no route assigns. On success the promise
  resolves to \<open>undefined\<close>.
\<close>

definition handlers_ensureOwnerExists :: "json_parse \<Rightarrow> request \<Rightarrow> store \<Rightarrow> reply \<times> store" where
  "handlers_ensureOwnerExists parse req st =
     (case pre_owner req ''owner'' of
        None \<Rightarrow> (ReplyError TypeError, st)
      | Some ow \<Rightarrow>
          (case pre_owner req ''user'' of
             None \<Rightarrow> (ReplyError TypeError, st)
           | Some user \<Rightarrow>
               (case readItem parse st user (owner_type ow) (owner_id ow) of
                  (Inl e, st') \<Rightarrow> (ReplyError e, st')
                | (Inr None, st') \<Rightarrow> (ReplyError Boom_unauthorized, st')
                | (Inr (Some ownerItem), st') \<Rightarrow> (Reply None, st'))))"

text \<open>\<open>authorizedForOwner\<close> calls \<open>reply\<close> for an organization only.\<close>

definition handlers_authorizedForOwner :: "request \<Rightarrow> reply" where
  "handlers_authorizedForOwner req =
     (case pre_owner req ''owner'' of
        None \<Rightarrow> ReplyError TypeError
      | Some ow \<Rightarrow>
          if owner_type ow = ''organization''
          then (if owner_id ow = ''1'' then Reply (Some (JBool True))
                else ReplyError Boom_unauthorized)
          else NoReply)"

definition handlers_itemsForOwner :: "json_parse \<Rightarrow> request \<Rightarrow> store \<Rightarrow> reply \<times> store" where
  "handlers_itemsForOwner parse req st =
     (case pre_owner req ''owner'' of
        None \<Rightarrow> (ReplyError TypeError, st)
      | Some ow \<Rightarrow>
          (case readAllItemsForOwner parse st ow of
             (Inl e, st') \<Rightarrow> (ReplyError e, st')
           | (Inr items, st') \<Rightarrow> (Reply (Some (JArr (map JObj items))), st')))"

text \<open>
  \<open>countAllItemsForOwner\<close>, \<open>countAllItemsForType\<close> and \<open>deleteItem\<close> are imported from
  the repository module, which neither defines nor exports them: they are \<open>undefined\<close>, and
  calling them throws.
\<close>

definition handlers_countItemsForOwner :: "request \<Rightarrow> reply" where
  "handlers_countItemsForOwner req = ReplyError TypeError"

definition handlers_itemType :: "request \<Rightarrow> reply" where
  "handlers_itemType req = Reply (Some (JStr (itemType (req_params req))))"

definition handlers_itemsForType :: "json_parse \<Rightarrow> request \<Rightarrow> store \<Rightarrow> reply \<times> store" where
  "handlers_itemsForType parse req st =
     (case pre_owner req ''owner'' of
        None \<Rightarrow> (ReplyError TypeError, st)
      | Some ow \<Rightarrow>
          (case readAllItemsForType parse st ow (pre_type req) of
             (Inl e, st') \<Rightarrow> (ReplyError e, st')
           | (Inr items, st') \<Rightarrow> (Reply (Some (JArr (map JObj items))), st')))"

definition handlers_countItemsForType :: "request \<Rightarrow> reply" where
  "handlers_countItemsForType req = ReplyError TypeError"

text \<open>\<open>handlers.item\<close>: an absent item becomes \<open>Boom.notFound\<close>, which \<open>.catch(reply)\<close> sends.\<close>

definition handlers_item :: "json_parse \<Rightarrow> request \<Rightarrow> store \<Rightarrow> reply \<times> store" where
  "handlers_item parse req st =
     (case pre_owner req ''owner'' of
        None \<Rightarrow> (ReplyError TypeError, st)
      | Some ow \<Rightarrow>
          (case readItem parse st ow (pre_type req) (item_id (req_params req)) of
             (Inl e, st') \<Rightarrow> (ReplyError e, st')
           | (Inr None, st') \<Rightarrow> (ReplyError Boom_notFound, st')
           | (Inr (Some item), st') \<Rightarrow> (Reply (Some (JObj item)), st')))"

text \<open>The handlers that the route table declares in place.\<close>

definition handler_count :: "request \<Rightarrow> reply" where
  "handler_count req =
     Reply (Some (JObj (case get_prop ''count'' (req_pre req) of
                          None \<Rightarrow> []
                        | Some c \<Rightarrow> [(''count'', c)])))"

text \<open>
  Both handlers below run after validation, which has established that the payload is an
  object, and for \<open>POST\<close> that it has a \<open>contentJSON\<close>; the remaining branches stand for
  the exception that destructuring a payload of another shape would raise.
\<close>

definition handler_create ::
  "json_stringify \<Rightarrow> request \<Rightarrow> store \<Rightarrow> reply \<times> store" where
  "handler_create stringify req st =
     (case req_payload req of
        JObj payload \<Rightarrow>
          (case pre_owner req ''owner'' of
             None \<Rightarrow> (ReplyError TypeError, st)
           | Some ow \<Rightarrow>
               (case get_prop ''contentJSON'' payload of
                  None \<Rightarrow> (ReplyError TypeError, st)
                | Some contentJSON \<Rightarrow>
                    (case createItem stringify st ow (pre_type req)
                            (get_prop ''tags'' payload) (get_prop ''name'' payload) contentJSON of
                       (Inl e, st') \<Rightarrow> (ReplyError e, st')
                     | (Inr (type, ident), st') \<Rightarrow>
                         (ReplyCreated
                            (JObj [(''type'', JStr type), (''id'', JNum (int ident))])
                            (''/@'' @ ownerType (req_params req) @ ''/'' @ ownerID (req_params req)
                               @ ''/items/'' @ type @ ''/'' @ decimal ident),
                          st'))))
      | _ \<Rightarrow> (ReplyError TypeError, st))"

definition handler_patch :: "request \<Rightarrow> store \<Rightarrow> reply \<times> store" where
  "handler_patch req st =
     (case req_payload req of
        JObj payload \<Rightarrow>
          (case pre_owner req ''owner'' of
             None \<Rightarrow> (ReplyError TypeError, st)
           | Some ow \<Rightarrow>
               (case updateItemWithChanges st ow (pre_type req) (item_id (req_params req))
                       payload of
                  (Inl e, st') \<Rightarrow> (ReplyError e, st')
                | (Inr attributes, st') \<Rightarrow> (Reply (Some (JObj attributes)), st')))
      | _ \<Rightarrow> (ReplyError TypeError, st))"

definition handler_delete :: "request \<Rightarrow> reply" where
  "handler_delete req = ReplyError TypeError"

subsection \<open>The route table\<close>

datatype http_method = GET | POST | PATCH | DELETE

text \<open>
  The members of \<open>handlers\<close>, and the four handlers declared in place. A route names one
  of them as its handler and any of them as the method of a prerequisite.
\<close>

datatype handler =
    Owner
  | EnsureOwnerExists
  | AuthorizedForOwner
  | ItemsForOwner
  | CountItemsForOwner
  | ItemType
  | ItemsForType
  | CountItemsForType
  | Item
  | ReplyCount
  | Create
  | Patch
  | Delete

fun run_handler ::
  "json_parse \<Rightarrow> json_stringify \<Rightarrow> handler \<Rightarrow> request \<Rightarrow> store \<Rightarrow> reply \<times> store" where
  "run_handler parse stringify Owner req st = (handlers_owner req, st)"
| "run_handler parse stringify EnsureOwnerExists req st = handlers_ensureOwnerExists parse req st"
| "run_handler parse stringify AuthorizedForOwner req st = (handlers_authorizedForOwner req, st)"
| "run_handler parse stringify ItemsForOwner req st = handlers_itemsForOwner parse req st"
| "run_handler parse stringify CountItemsForOwner req st = (handlers_countItemsForOwner req, st)"
| "run_handler parse stringify ItemType req st = (handlers_itemType req, st)"
| "run_handler parse stringify ItemsForType req st = handlers_itemsForType parse req st"
| "run_handler parse stringify CountItemsForType req st = (handlers_countItemsForType req, st)"
| "run_handler parse stringify Item req st = handlers_item parse req st"
| "run_handler parse stringify ReplyCount req st = (handler_count req, st)"
| "run_handler parse stringify Create req st = handler_create stringify req st"
| "run_handler parse stringify Patch req st = handler_patch req st"
| "run_handler parse stringify Delete req st = (handler_delete req, st)"

record route =
  route_method :: http_method
  route_path :: string
  route_validate :: validation
  route_pre :: "(string \<times> handler) list list"
  route_handler :: handler

definition ownerPathPrefix :: "string \<Rightarrow> string" where
  "ownerPathPrefix rest = ''/1/@'' @ ''{ownerType}/{ownerID}'' @ rest"

definition owner_and_type :: "(string \<times> handler) list" where
  "owner_and_type = [(''owner'', Owner), (''type'', ItemType)]"

definition route_owner :: route where
  "route_owner =
     \<lparr>route_method = GET, route_path = ownerPathPrefix [],
      route_validate = NoValidation, route_pre = [], route_handler = Owner\<rparr>"

definition route_items :: route where
  "route_items =
     \<lparr>route_method = GET, route_path = ownerPathPrefix ''/items'',
      route_validate = NoValidation, route_pre = [[(''owner'', Owner)]],
      route_handler = ItemsForOwner\<rparr>"

definition route_items_count :: route where
  "route_items_count =
     \<lparr>route_method = GET, route_path = ownerPathPrefix ''/items/:count'',
      route_validate = NoValidation,
      route_pre = [[(''owner'', Owner)], [(''count'', CountItemsForOwner)]],
      route_handler = ReplyCount\<rparr>"

definition route_type :: route where
  "route_type =
     \<lparr>route_method = GET, route_path = ownerPathPrefix ''/items/type:{itemType}'',
      route_validate = NoValidation, route_pre = [owner_and_type],
      route_handler = ItemsForType\<rparr>"

definition route_type_count :: route where
  "route_type_count =
     \<lparr>route_method = GET, route_path = ownerPathPrefix ''/items/type:{itemType}:count'',
      route_validate = NoValidation,
      route_pre = [owner_and_type, [(''count'', CountItemsForType)]],
      route_handler = ReplyCount\<rparr>"

definition route_item :: route where
  "route_item =
     \<lparr>route_method = GET, route_path = ownerPathPrefix ''/items/type:{itemType}/{id}'',
      route_validate = NoValidation, route_pre = [owner_and_type],
      route_handler = Item\<rparr>"

definition route_create :: route where
  "route_create =
     \<lparr>route_method = POST, route_path = ownerPathPrefix ''/items/type:{itemType}'',
      route_validate = ValidateCreate, route_pre = [owner_and_type],
      route_handler = Create\<rparr>"

definition route_patch :: route where
  "route_patch =
     \<lparr>route_method = PATCH, route_path = ownerPathPrefix ''/items/type:{itemType}/{id}'',
      route_validate = ValidatePatch, route_pre = [owner_and_type],
      route_handler = Patch\<rparr>"

definition route_delete :: route where
  "route_delete =
     \<lparr>route_method = DELETE, route_path = ownerPathPrefix ''/items/type:{itemType}/{id}'',
      route_validate = NoValidation, route_pre = [owner_and_type],
      route_handler = Delete\<rparr>"

definition routes :: "route list" where
  "routes =
     [route_owner, route_items, route_items_count, route_type, route_type_count,
      route_item, route_create, route_patch, route_delete]"

subsection \<open>Running a request\<close>

text \<open>
  Assigning a prerequisite's value to \<open>request.pre\<close>; an \<open>undefined\<close> value reads as an
  absent one.
\<close>

fun assign_pre :: "string \<Rightarrow> json option \<Rightarrow> obj \<Rightarrow> obj" where
  "assign_pre name None pre = AList.delete name pre"
| "assign_pre name (Some v) pre = AList.update name v pre"

text \<open>
  The prerequisites run in the order of the table; the members of one group do not read
  each other's values, so running a group from left to right is one of its schedules. A
  prerequisite that replies with an error ends the request with that error: the later
  prerequisites and the handler do not run.
\<close>

fun run_pre ::
  "json_parse \<Rightarrow> json_stringify \<Rightarrow> (string \<times> handler) list \<Rightarrow> request \<Rightarrow> store \<Rightarrow>
     (response + request) \<times> store" where
  "run_pre parse stringify [] req st = (Inr req, st)"
| "run_pre parse stringify ((name, method) # steps) req st =
     (case run_handler parse stringify method req st of
        (Reply v, st') \<Rightarrow>
          run_pre parse stringify steps (req\<lparr>req_pre := assign_pre name v (req_pre req)\<rparr>) st'
      | (ReplyCreated v location, st') \<Rightarrow>
          run_pre parse stringify steps
            (req\<lparr>req_pre := assign_pre name (Some v) (req_pre req)\<rparr>) st'
      | (ReplyError e, st') \<Rightarrow> (Inl (response_of_reply (ReplyError e)), st')
      | (NoReply, st') \<Rightarrow> (Inl NoResponse, st'))"

text \<open>
  The life of a request on a route: validation, then the prerequisites, then the handler.
\<close>

definition handle_request ::
  "json_parse \<Rightarrow> json_stringify \<Rightarrow> route \<Rightarrow> request \<Rightarrow> store \<Rightarrow> response \<times> store" where
  "handle_request parse stringify r req st =
     (if \<not> valid (route_validate r) req then (Response 400 None None, st)
      else (case run_pre parse stringify (concat (route_pre r)) req st of
              (Inl resp, st') \<Rightarrow> (resp, st')
            | (Inr req', st') \<Rightarrow>
                (case run_handler parse stringify (route_handler r) req' st' of
                   (rep, st'') \<Rightarrow> (response_of_reply rep, st''))))"

definition incoming :: "params \<Rightarrow> json \<Rightarrow> request" where
  "incoming ps payload = \<lparr>req_params = ps, req_payload = payload, req_pre = []\<rparr>"

section \<open>Sample data\<close>

text \<open>
  A fragment of \<open>JSON.stringify\<close> and \<open>JSON.parse\<close>, on the empty object and
  \<open>null\<close>, an empty store and the owners of type \<open>organization\<close>, for running the
  operations on concrete inputs.
\<close>

definition stringify_sample :: json_stringify where
  "stringify_sample v = (case v of JObj [] \<Rightarrow> ''{}'' | _ \<Rightarrow> ''null'')"

definition parse_sample :: json_parse where
  "parse_sample s =
     (if s = ''{}'' then Some (JObj []) else if s = ''null'' then Some JNull else None)"

definition empty_store :: store where
  "empty_store = \<lparr>rows = [], counters = [], calls = []\<rparr>"

definition organization :: "string \<Rightarrow> owner" where
  "organization ident = \<lparr>owner_type = ''organization'', owner_id = ident\<rparr>"

definition picture_item :: "json \<Rightarrow> obj" where
  "picture_item name =
     [(''ownerID'', JStr ''organization-1''),
      (''id'', JStr ''picture-1''),
      (''type'', JStr ''picture''),
      (''tags'', JArr []),
      (''name'', name),
      (''contentJSON'', JStr ''{}'')]"

definition store_with_picture :: store where
  "store_with_picture =
     \<lparr>rows = [((''organization-1'', ''picture-1''), picture_item (JStr ''Untitled''))],
      counters = [(''picture'', 1)],
      calls = [OpIncrementID, OpPutItem]\<rparr>"

definition patch_sample :: obj where
  "patch_sample =
     [(''version'', JNum 1),
      (''contentJSON'', JObj []),
      (''rawTags'', JStr ''a,b''),
      (''previewDestination'', JObj [(''device'', JStr ''phone'')])]"

definition picture_params :: "string \<Rightarrow> string \<Rightarrow> params" where
  "picture_params organization_id ident =
     \<lparr>ownerType = ''organization'', ownerID = organization_id,
      itemType = ''picture'', item_id = ident\<rparr>"

definition store_of_organization_2 :: store where
  "store_of_organization_2 =
     \<lparr>rows = [((''organization-2'', ''picture-1''),
                [(''ownerID'', JStr ''organization-2''),
                 (''id'', JStr ''picture-1''),
                 (''type'', JStr ''picture''),
                 (''tags'', JArr []),
                 (''name'', JStr ''Untitled''),
                 (''contentJSON'', JStr ''{}'')])],
      counters = [(''picture'', 1)],
      calls = []\<rparr>"

definition items_request_of_organization_2 :: request where
  "items_request_of_organization_2 =
     incoming \<lparr>ownerType = ''organization'', ownerID = ''2'', itemType = [], item_id = []\<rparr>
       JNull"

section \<open>Properties\<close>

subsection \<open>Helper lemmas on strings and objects\<close>

lemma R_split_not_Nil: "R_split sep s \<noteq> []"
  by (induction s) (auto split: list.splits)

lemma R_split_no_sep: "sep \<notin> set s \<Longrightarrow> R_split sep s = [s]"
  by (induction s) auto

lemma R_split_append:
  "R_split sep (p @ sep # s) = R_split sep p @ R_split sep s"
proof (induction p)
  case Nil
  show ?case by simp
next
  case (Cons c p)
  obtain q qs where q: "R_split sep p = q # qs"
    using R_split_not_Nil [of sep p] by (cases "R_split sep p") auto
  show ?case
    by (simp add: Cons.IH q)
qed

lemma last_R_split_append:
  "sep \<notin> set s \<Longrightarrow> last (R_split sep (p @ sep # s)) = s"
  by (simp add: R_split_append R_split_no_sep)

lemma formatID_uniqueID:
  "CHR ''-'' \<notin> set ident \<Longrightarrow> formatID (uniqueIDForTypeAndID type ident) = ident"
  using last_R_split_append [of "CHR ''-''" ident type]
  by (simp add: formatID_def uniqueIDForTypeAndID_def)

lemma digit_char_not_dash: "d < 10 \<Longrightarrow> digit_char d \<noteq> CHR ''-''"
proof -
  assume "d < 10"
  then have "''0123456789'' ! d \<in> set ''0123456789''"
    by (intro nth_mem) simp
  moreover have "CHR ''-'' \<notin> set ''0123456789''"
    by simp
  ultimately show ?thesis
    unfolding digit_char_def by metis
qed

lemma decimal_no_dash: "CHR ''-'' \<notin> set (decimal n)"
proof (induction n rule: decimal.induct)
  case (1 n)
  show ?case
  proof (cases "n < 10")
    case True
    then show ?thesis
      using digit_char_not_dash [of n] by (subst decimal.simps) auto
  next
    case False
    then have "CHR ''-'' \<notin> set (decimal (n div 10))"
      using "1" by simp
    moreover have "digit_char (n mod 10) \<noteq> CHR ''-''"
      by (rule digit_char_not_dash) simp
    ultimately show ?thesis
      using False by (subst decimal.simps) auto
  qed
qed

lemma map_of_Object_assign_rev:
  "map_of (Object_assign target source) = map_of target ++ map_of (rev source)"
  unfolding Object_assign_def
proof (induction source arbitrary: target)
  case Nil
  then show ?case by simp
next
  case (Cons kv source)
  obtain k v where kv: "kv = (k, v)" by (cases kv)
  have "map_of (fold (\<lambda>(k, v). AList.update k v) source (AList.update k v target))
        = map_of (AList.update k v target) ++ map_of (rev source)"
    by (rule Cons.IH)
  also have "\<dots> = map_of target ++ map_of (rev ((k, v) # source))"
    by (simp add: update_conv' map_add_upd_left)
  finally show ?case
    by (simp add: kv)
qed

lemma map_of_rev_distinct: "distinct (map fst xs) \<Longrightarrow> map_of (rev xs) = map_of xs"
  by (subst map_of_inject_set) (simp_all add: rev_map [symmetric])

lemma map_of_Object_assign:
  "distinct (map fst source) \<Longrightarrow>
     map_of (Object_assign target source) = map_of target ++ map_of source"
  by (simp add: map_of_Object_assign_rev map_of_rev_distinct)

lemma get_prop_update:
  "get_prop k (AList.update k' v ob) = (if k = k' then Some v else get_prop k ob)"
  by (simp add: get_prop_def update_conv')

lemma get_prop_Object_assign_single:
  "get_prop k (Object_assign target [(k', v)]) = (if k = k' then Some v else get_prop k target)"
  by (simp add: Object_assign_def get_prop_update)

lemma get_prop_Object_assign_empty:
  "distinct (map fst item) \<Longrightarrow> get_prop k (Object_assign [] item) = get_prop k item"
  by (simp add: get_prop_def map_of_Object_assign)

lemma formatItem_id_contentJSON:
  assumes d: "distinct (map fst item)"
    and i: "get_prop ''id'' item = Some (JStr s)"
    and c: "get_prop ''contentJSON'' item = Some (JStr str)"
    and t: "str \<noteq> []"
    and p: "parse str = Some v"
  shows "\<exists>item'. formatItem parse item = Inr item' \<and>
           get_prop ''id'' item' = Some (JStr (formatID s)) \<and>
           get_prop ''contentJSON'' item' = Some v \<and>
           (\<forall>k. k \<noteq> ''id'' \<longrightarrow> k \<noteq> ''contentJSON'' \<longrightarrow> get_prop k item' = get_prop k item)"
  using assms
  by (simp add: formatItem_def get_prop_Object_assign_single get_prop_Object_assign_empty)

lemma rows_called [simp]: "rows (called op st) = rows st"
  by (simp add: called_def)

lemma counters_called [simp]: "counters (called op st) = counters st"
  by (simp add: called_def)

lemma calls_called [simp]: "calls (called op st) = calls st @ [op]"
  by (simp add: called_def)

lemma createItem_result:
  "createItem stringify st ow type tags name v =
     (Inr (type, Suc (counter_of st type)),
      called OpPutItem
        ((called OpIncrementID
           (st\<lparr>counters := AList.update type (Suc (counter_of st type)) (counters st)\<rparr>))
         \<lparr>rows := AList.update
            (uniqueIDForOwner ow, uniqueIDForTypeAndID type (decimal (Suc (counter_of st type))))
            [(''ownerID'', JStr (uniqueIDForOwner ow)),
             (''id'', JStr (uniqueIDForTypeAndID type (decimal (Suc (counter_of st type))))),
             (''type'', JStr type),
             (''tags'', (case tags of None \<Rightarrow> JArr [] | Some t \<Rightarrow> t)),
             (''name'', (case name of None \<Rightarrow> JStr ''Untitled'' | Some n \<Rightarrow> n)),
             (''contentJSON'', JStr (stringify v))]
            (rows st)\<rparr>))"
  by (simp add: createItem_def incrementIDForType_def putItem_def item_key_of_def get_prop_def
      Let_def)

lemma readItem_found:
  assumes "map_of (rows st) (uniqueIDForOwner ow, uniqueIDForTypeAndID type ident) = Some item"
    and "formatItem parse item = Inr item'"
  shows "readItem parse st ow type ident = (Inr (Some item'), called OpGetItem st)"
  using assms by (simp add: readItem_def getItem_def)

lemma updateItem_result:
  assumes "actions \<noteq> []" and "\<not> sets_key_attribute actions"
  shows "updateItem st k actions =
     (Inr (fold apply_action actions
        (case map_of (rows st) k of None \<Rightarrow> key_attributes k | Some item \<Rightarrow> item)),
      called OpUpdateItem
        (st\<lparr>rows := AList.update k
            (fold apply_action actions
               (case map_of (rows st) k of None \<Rightarrow> key_attributes k | Some item \<Rightarrow> item))
            (rows st)\<rparr>))"
  using assms by (simp add: updateItem_def Let_def)

lemma updateItem_rejected:
  assumes "actions = [] \<or> sets_key_attribute actions"
  shows "updateItem st k actions = (Inl ValidationException, called OpUpdateItem st)"
  using assms by (auto simp: updateItem_def)

lemma sets_key_attribute_getUpdateExpression:
  "sets_key_attribute (getUpdateExpression changes) =
     (''ownerID'' \<in> fst ` set changes \<or> ''id'' \<in> fst ` set changes)"
  by (induction changes) (auto simp: sets_key_attribute_def getUpdateExpression_def)

lemma getUpdateExpression_Nil: "(getUpdateExpression changes = []) = (changes = [])"
  by (simp add: getUpdateExpression_def)

lemma fold_getUpdateExpression:
  "fold apply_action (getUpdateExpression changes) item = Object_assign item changes"
  by (induction changes arbitrary: item)
     (auto simp: getUpdateExpression_def Object_assign_def)

lemma get_prop_Object_assign:
  "distinct (map fst source) \<Longrightarrow>
     get_prop k (Object_assign target source) =
       (case map_of source k of None \<Rightarrow> get_prop k target | Some v \<Rightarrow> Some v)"
  by (simp add: get_prop_def map_of_Object_assign map_add_def split: option.splits)



lemma decimal_1: "decimal (Suc 0) = ''1''"
  by (simp add: decimal.simps digit_char_def)

lemma createItem_sample:
  "createItem stringify_sample empty_store (organization ''1'') ''picture'' None None (JObj [])
     = (Inr (''picture'', 1), store_with_picture)"
  by (simp add: createItem_result counter_of_def empty_store_def store_with_picture_def
      picture_item_def called_def decimal_1 uniqueIDForOwner_def uniqueIDForTypeAndID_def
      organization_def stringify_sample_def)

lemma updateItemWithChanges_sample:
  "updateItemWithChanges store_with_picture (organization ''1'') ''picture'' ''1''
       [(''name'', JStr ''X'')]
     = (Inr (picture_item (JStr ''X'')),
        \<lparr>rows = [((''organization-1'', ''picture-1''), picture_item (JStr ''X''))],
         counters = [(''picture'', 1)],
         calls = [OpIncrementID, OpPutItem, OpUpdateItem]\<rparr>)"
  by (simp add: updateItemWithChanges_def updateItem_def sets_key_attribute_def
      getUpdateExpression_def store_with_picture_def picture_item_def called_def
      uniqueIDForOwner_def uniqueIDForTypeAndID_def organization_def Let_def)

lemma owner_eta: "\<lparr>owner_type = owner_type ow, owner_id = owner_id ow\<rparr> = ow"
  by simp

lemma incoming_fields [simp]:
  "req_params (incoming ps payload) = ps"
  "req_payload (incoming ps payload) = payload"
  "req_pre (incoming ps payload) = []"
  by (simp_all add: incoming_def)

lemma run_pre_owner_and_type:
  "run_pre parse stringify owner_and_type (incoming ps payload) st =
     (Inr \<lparr>req_params = ps, req_payload = payload,
           req_pre = [(''owner'', JObj [(''type'', JStr (ownerType ps)), (''id'', JStr (ownerID ps))]),
                      (''type'', JStr (itemType ps))]\<rparr>, st)"
  by (simp add: owner_and_type_def incoming_def handlers_owner_def handlers_itemType_def)

lemma handle_request_patch:
  assumes "patchValidator (JObj payload)"
  shows "handle_request parse stringify route_patch (incoming ps (JObj payload)) st =
     (case updateItemWithChanges st \<lparr>owner_type = ownerType ps, owner_id = ownerID ps\<rparr>
             (itemType ps) (item_id ps) payload of
        (Inl e, st') \<Rightarrow> (Response (status_of_error e) None None, st')
      | (Inr attributes, st') \<Rightarrow> (Response 200 (Some (JObj attributes)) None, st'))"
  using assms
  by (simp add: handle_request_def route_patch_def run_pre_owner_and_type
      handler_patch_def pre_owner_def pre_type_def get_prop_def
      del: patchValidator.simps split: prod.splits sum.splits)

lemma updateItemWithChanges_result:
  assumes "changes \<noteq> []"
    and "''ownerID'' \<notin> fst ` set changes" and "''id'' \<notin> fst ` set changes"
  shows "updateItemWithChanges st ow type ident changes =
     (Inr (Object_assign
        (case map_of (rows st) (uniqueIDForOwner ow, uniqueIDForTypeAndID type ident) of
           None \<Rightarrow> key_attributes (uniqueIDForOwner ow, uniqueIDForTypeAndID type ident)
         | Some item \<Rightarrow> item) changes),
      called OpUpdateItem
        (st\<lparr>rows := AList.update (uniqueIDForOwner ow, uniqueIDForTypeAndID type ident)
           (Object_assign
              (case map_of (rows st) (uniqueIDForOwner ow, uniqueIDForTypeAndID type ident) of
                 None \<Rightarrow> key_attributes (uniqueIDForOwner ow, uniqueIDForTypeAndID type ident)
               | Some item \<Rightarrow> item) changes)
           (rows st)\<rparr>))"
proof -
  have "getUpdateExpression changes \<noteq> []"
    using assms(1) by (simp add: getUpdateExpression_Nil)
  moreover have "\<not> sets_key_attribute (getUpdateExpression changes)"
    using assms(2,3) by (simp add: sets_key_attribute_getUpdateExpression)
  ultimately show ?thesis
    by (simp add: updateItemWithChanges_def updateItem_result fold_getUpdateExpression)
qed

lemma updateItemWithChanges_rejected:
  assumes "changes = [] \<or> ''ownerID'' \<in> fst ` set changes \<or> ''id'' \<in> fst ` set changes"
  shows "updateItemWithChanges st ow type ident changes =
           (Inl ValidationException, called OpUpdateItem st)"
proof -
  have "getUpdateExpression changes = [] \<or> sets_key_attribute (getUpdateExpression changes)"
    using assms by (simp add: getUpdateExpression_Nil sets_key_attribute_getUpdateExpression)
  then show ?thesis
    unfolding updateItemWithChanges_def by (rule updateItem_rejected)
qed

lemma handle_request_patch_empty:
  "handle_request parse stringify route_patch (incoming ps (JObj [])) st =
     (Response 500 None None, called OpUpdateItem st)"
proof -
  have "patchValidator (JObj [])"
    by (simp add: only_keys_def optional_def get_prop_def)
  then show ?thesis
    by (simp add: handle_request_patch updateItemWithChanges_rejected)
qed

lemma patchValidator_keys:
  assumes "patchValidator (JObj payload)"
  shows "''ownerID'' \<notin> fst ` set payload" and "''id'' \<notin> fst ` set payload"
  using assms by (auto simp: only_keys_def list_all_iff)

lemma patchValidator_contentJSON:
  "patchValidator (JObj payload) \<Longrightarrow> map_of payload ''contentJSON'' = Some v \<Longrightarrow> joi_object v"
  by (simp add: optional_def get_prop_def)

lemma get_prop_Object_assign_other:
  "k \<notin> fst ` set source \<Longrightarrow> get_prop k (Object_assign target source) = get_prop k target"
proof -
  assume "k \<notin> fst ` set source"
  then have "map_of (rev source) k = None"
    by (simp add: map_of_eq_None_iff)
  then show ?thesis
    by (simp add: get_prop_def map_of_Object_assign_rev map_add_def)
qed

lemma updateNameForItem_as_changes:
  "updateNameForItem st ow type ident newName =
     updateItemWithChanges st ow type ident [(''name'', newName)]"
  by (simp add: updateNameForItem_def updateItemWithChanges_def getUpdateExpression_def)

lemma updateTagsForItem_as_changes:
  "updateTagsForItem st ow type ident newTags =
     updateItemWithChanges st ow type ident [(''tags'', newTags)]"
  by (simp add: updateTagsForItem_def updateItemWithChanges_def getUpdateExpression_def)

lemma picture_existing:
  "map_of (rows store_with_picture)
     (uniqueIDForOwner (organization ''1''), uniqueIDForTypeAndID ''picture'' ''1'')
   = Some (picture_item (JStr ''Untitled''))"
  by (simp add: store_with_picture_def uniqueIDForOwner_def uniqueIDForTypeAndID_def
      organization_def)



lemma updateItemWithChanges_existing:
  assumes existing:
      "map_of (rows st) (uniqueIDForOwner ow, uniqueIDForTypeAndID type ident) = Some old"
    and nonempty: "changes \<noteq> []"
    and other: "''ownerID'' \<notin> fst ` set changes" "''id'' \<notin> fst ` set changes"
  shows "updateItemWithChanges st ow type ident changes =
           (Inr (Object_assign old changes),
            called OpUpdateItem
              (st\<lparr>rows := AList.update (uniqueIDForOwner ow, uniqueIDForTypeAndID type ident)
                 (Object_assign old changes) (rows st)\<rparr>))"
  using existing by (simp add: updateItemWithChanges_result [OF nonempty other])

lemma formatItem_picture_item:
  "formatItem parse_sample (picture_item name) =
     Inr [(''ownerID'', JStr ''organization-1''),
          (''id'', JStr ''1''),
          (''type'', JStr ''picture''),
          (''tags'', JArr []),
          (''name'', name),
          (''contentJSON'', JObj [])]"
  by (simp add: formatItem_def picture_item_def get_prop_def Object_assign_def formatID_def
      parse_sample_def)

subsection \<open>Key round trip\<close>

text \<open>
  C3. For every type string of the item-type table and every id that contains no
  \<open>-\<close>, parsing the composite key that \<open>uniqueIDForTypeAndID\<close> builds gives the id back:
  \<open>formatID (uniqueIDForTypeAndID type id) = id\<close>. This includes the types that
  contain a \<open>-\<close> themselves, such as \<open>story-screen\<close>.
\<close>

theorem key_round_trip:
  "type \<in> snd ` set types \<Longrightarrow> CHR ''-'' \<notin> set ident \<Longrightarrow>
     formatID (uniqueIDForTypeAndID type ident) = ident"
  by (rule formatID_uniqueID)

theorem key_round_trip_witness:
  "''story-screen'' \<in> snd ` set types \<and> CHR ''-'' \<notin> set ''12'' \<and>
     formatID (uniqueIDForTypeAndID ''story-screen'' ''12'') = ''12''"
proof -
  have t: "''story-screen'' \<in> snd ` set types"
    by (simp add: types_def)
  have d: "CHR ''-'' \<notin> set ''12''"
    by simp
  show ?thesis
    using t d key_round_trip [OF t d] by simp
qed

subsection \<open>Reading an item that was just created\<close>

text \<open>
  C4. For every item created by \<open>createItem\<close>, a \<open>readItem\<close> that follows at once,
  with the same owner and type and the id that \<open>createItem\<close> returned, returns a record
  whose \<open>id\<close> is the counter value the allocator returned (in its decimal rendering,
  as the key holds it) and whose \<open>contentJSON\<close> is the value passed to \<open>createItem\<close>.
  \<open>JSON.parse\<close> is assumed to invert \<open>JSON.stringify\<close> on that value, and the
  serialization is not the empty string.
\<close>

theorem readItem_after_createItem:
  assumes nonempty: "stringify contentJSON \<noteq> []"
    and round_trip: "parse (stringify contentJSON) = Some contentJSON"
  shows "case createItem stringify st ow type tags name contentJSON of
           (Inl e, st1) \<Rightarrow> False
         | (Inr (type', counter), st1) \<Rightarrow>
             type' = type \<and> counter = fst (incrementIDForType st type) \<and>
             (case fst (readItem parse st1 ow type' (decimal counter)) of
                Inr (Some item) \<Rightarrow>
                  get_prop ''id'' item = Some (JStr (decimal counter)) \<and>
                  get_prop ''contentJSON'' item = Some contentJSON
              | _ \<Rightarrow> False)"
proof -
  define n where "n = Suc (counter_of st type)"
  define stored where "stored =
    [(''ownerID'', JStr (uniqueIDForOwner ow)),
     (''id'', JStr (uniqueIDForTypeAndID type (decimal n))),
     (''type'', JStr type),
     (''tags'', (case tags of None \<Rightarrow> JArr [] | Some t \<Rightarrow> t)),
     (''name'', (case name of None \<Rightarrow> JStr ''Untitled'' | Some n \<Rightarrow> n)),
     (''contentJSON'', JStr (stringify contentJSON))]"
  obtain st1 where created:
    "createItem stringify st ow type tags name contentJSON = (Inr (type, n), st1)"
    and stored: "map_of (rows st1) (uniqueIDForOwner ow, uniqueIDForTypeAndID type (decimal n))
                   = Some stored"
    by (simp add: createItem_result n_def stored_def update_conv')
  have d: "distinct (map fst stored)"
    by (simp add: stored_def)
  have i: "get_prop ''id'' stored = Some (JStr (uniqueIDForTypeAndID type (decimal n)))"
    by (simp add: stored_def get_prop_def)
  have c: "get_prop ''contentJSON'' stored = Some (JStr (stringify contentJSON))"
    by (simp add: stored_def get_prop_def)
  obtain item' where formatted: "formatItem parse stored = Inr item'"
    and ident: "get_prop ''id'' item' = Some (JStr (formatID (uniqueIDForTypeAndID type (decimal n))))"
    and content: "get_prop ''contentJSON'' item' = Some contentJSON"
    using formatItem_id_contentJSON
      [where parse = parse and str = "stringify contentJSON", OF d i c nonempty round_trip]
    by blast
  have "readItem parse st1 ow type (decimal n) = (Inr (Some item'), called OpGetItem st1)"
    using stored formatted by (rule readItem_found)
  moreover have "formatID (uniqueIDForTypeAndID type (decimal n)) = decimal n"
    by (rule formatID_uniqueID) (rule decimal_no_dash)
  moreover have "n = fst (incrementIDForType st type)"
    by (simp add: n_def incrementIDForType_def Let_def)
  ultimately show ?thesis
    using created ident content by simp
qed

theorem readItem_after_createItem_witness:
  "stringify_sample (JObj []) \<noteq> [] \<and>
   parse_sample (stringify_sample (JObj [])) = Some (JObj []) \<and>
   (case createItem stringify_sample empty_store (organization ''1'') ''picture'' None None
           (JObj []) of
      (Inl e, st1) \<Rightarrow> False
    | (Inr (type', counter), st1) \<Rightarrow>
        type' = ''picture'' \<and> counter = fst (incrementIDForType empty_store ''picture'') \<and>
        (case fst (readItem parse_sample st1 (organization ''1'') type' (decimal counter)) of
           Inr (Some item) \<Rightarrow>
             get_prop ''id'' item = Some (JStr (decimal counter)) \<and>
             get_prop ''contentJSON'' item = Some (JObj [])
         | _ \<Rightarrow> False))"
proof -
  have nonempty: "stringify_sample (JObj []) \<noteq> []"
    by (simp add: stringify_sample_def)
  have round_trip: "parse_sample (stringify_sample (JObj [])) = Some (JObj [])"
    by (simp add: stringify_sample_def parse_sample_def)
  show ?thesis
    using nonempty round_trip
      readItem_after_createItem
        [where parse = parse_sample and stringify = stringify_sample and contentJSON = "JObj []"
           and st = empty_store and ow = "organization ''1''" and type = "''picture''"
           and tags = None and name = None,
         OF nonempty round_trip]
    by simp
qed

subsection \<open>Creating an item\<close>

text \<open>
  C5. \<open>createItem\<close> first allocates an id with \<open>incrementIDForType\<close> and then makes one
  \<open>putItem\<close> call. The record it writes holds the serialization of the input as
  \<open>contentJSON\<close>, the name \<open>Untitled\<close> and the tags \<open>[]\<close> when these are left out,
  and no other record changes. The result is \<open>{type, id}\<close> with the allocator's counter
  as \<open>id\<close>, and the same call made again gets the next counter, not the same one.
\<close>

theorem createItem_allocates_and_writes:
  assumes created: "createItem stringify st ow type tags name contentJSON = (result, st')"
  shows "(let counter = fst (incrementIDForType st type);
              key = (uniqueIDForOwner ow, uniqueIDForTypeAndID type (decimal counter))
          in result = Inr (type, counter) \<and>
             counter = Suc (counter_of st type) \<and>
             counter_of st' type = counter \<and>
             calls st' = calls st @ [OpIncrementID, OpPutItem] \<and>
             map_of (rows st') = (map_of (rows st))(key \<mapsto>
               [(''ownerID'', JStr (uniqueIDForOwner ow)),
                (''id'', JStr (uniqueIDForTypeAndID type (decimal counter))),
                (''type'', JStr type),
                (''tags'', (case tags of None \<Rightarrow> JArr [] | Some t \<Rightarrow> t)),
                (''name'', (case name of None \<Rightarrow> JStr ''Untitled'' | Some n \<Rightarrow> n)),
                (''contentJSON'', JStr (stringify contentJSON))]) \<and>
             fst (createItem stringify st' ow type tags name contentJSON)
               = Inr (type, Suc counter))"
proof -
  have n: "fst (incrementIDForType st type) = Suc (counter_of st type)"
    by (simp add: incrementIDForType_def Let_def)
  have result: "result = Inr (type, Suc (counter_of st type))"
    using created by (simp add: createItem_result)
  have counters: "counters st' = AList.update type (Suc (counter_of st type)) (counters st)"
    using created by (auto simp: createItem_result)
  have c: "counter_of st' type = Suc (counter_of st type)"
    by (simp add: counter_of_def counters update_conv')
  have calls: "calls st' = calls st @ [OpIncrementID, OpPutItem]"
    using created by (auto simp: createItem_result)
  have rows: "rows st' = AList.update
      (uniqueIDForOwner ow, uniqueIDForTypeAndID type (decimal (Suc (counter_of st type))))
      [(''ownerID'', JStr (uniqueIDForOwner ow)),
       (''id'', JStr (uniqueIDForTypeAndID type (decimal (Suc (counter_of st type))))),
       (''type'', JStr type),
       (''tags'', (case tags of None \<Rightarrow> JArr [] | Some t \<Rightarrow> t)),
       (''name'', (case name of None \<Rightarrow> JStr ''Untitled'' | Some n \<Rightarrow> n)),
       (''contentJSON'', JStr (stringify contentJSON))]
      (rows st)"
    using created by (auto simp: createItem_result)
  have again: "fst (createItem stringify st' ow type tags name contentJSON)
      = Inr (type, Suc (Suc (counter_of st type)))"
    by (simp add: createItem_result c)
  show ?thesis
    unfolding Let_def n
    using result c calls again by (simp add: rows update_conv')
qed

theorem createItem_allocates_and_writes_witness:
  "createItem stringify_sample empty_store (organization ''1'') ''picture'' None None (JObj [])
     = (Inr (''picture'', 1), store_with_picture) \<and>
   (let counter = fst (incrementIDForType empty_store ''picture'');
        key = (uniqueIDForOwner (organization ''1''),
               uniqueIDForTypeAndID ''picture'' (decimal counter))
    in (Inr (''picture'', 1) :: error + string \<times> nat) = Inr (''picture'', counter) \<and>
       counter = Suc (counter_of empty_store ''picture'') \<and>
       counter_of store_with_picture ''picture'' = counter \<and>
       calls store_with_picture = calls empty_store @ [OpIncrementID, OpPutItem] \<and>
       map_of (rows store_with_picture) = (map_of (rows empty_store))(key \<mapsto>
         [(''ownerID'', JStr (uniqueIDForOwner (organization ''1''))),
          (''id'', JStr (uniqueIDForTypeAndID ''picture'' (decimal counter))),
          (''type'', JStr ''picture''),
          (''tags'', JArr []),
          (''name'', JStr ''Untitled''),
          (''contentJSON'', JStr (stringify_sample (JObj [])))]) \<and>
       fst (createItem stringify_sample store_with_picture (organization ''1'') ''picture''
              None None (JObj []))
         = Inr (''picture'', Suc counter))"
  using createItem_sample createItem_allocates_and_writes [OF createItem_sample]
  by simp

subsection \<open>Updating the name only\<close>

text \<open>
  C6. For an existing item and the changeset \<open>{name: X}\<close>, \<open>updateItemWithChanges\<close>
  succeeds and changes the submitted field only: \<open>tags\<close> and \<open>contentJSON\<close> of the
  returned record are those of the record before the call, and the returned record is the
  stored one.
\<close>

theorem updateItemWithChanges_name_only:
  assumes existing:
      "map_of (rows st) (uniqueIDForOwner ow, uniqueIDForTypeAndID type ident) = Some old"
    and updated: "updateItemWithChanges st ow type ident [(''name'', newName)] = (result, st')"
  shows "case result of
           Inl e \<Rightarrow> False
         | Inr new \<Rightarrow>
             get_prop ''name'' new = Some newName \<and>
             get_prop ''tags'' new = get_prop ''tags'' old \<and>
             get_prop ''contentJSON'' new = get_prop ''contentJSON'' old \<and>
             map_of (rows st') (uniqueIDForOwner ow, uniqueIDForTypeAndID type ident) = Some new"
proof -
  have "updateItemWithChanges st ow type ident [(''name'', newName)] =
      (Inr (Object_assign old [(''name'', newName)]),
       called OpUpdateItem
         (st\<lparr>rows := AList.update (uniqueIDForOwner ow, uniqueIDForTypeAndID type ident)
            (Object_assign old [(''name'', newName)]) (rows st)\<rparr>))"
    by (rule updateItemWithChanges_existing [OF existing]) simp_all
  with updated have result: "result = Inr (Object_assign old [(''name'', newName)])"
    and st': "rows st' =
      AList.update (uniqueIDForOwner ow, uniqueIDForTypeAndID type ident)
        (Object_assign old [(''name'', newName)]) (rows st)"
    by auto
  show ?thesis
    by (simp add: result st' get_prop_Object_assign_single update_conv')
qed

theorem updateItemWithChanges_name_only_witness:
  "map_of (rows store_with_picture)
     (uniqueIDForOwner (organization ''1''), uniqueIDForTypeAndID ''picture'' ''1'')
     = Some (picture_item (JStr ''Untitled'')) \<and>
   updateItemWithChanges store_with_picture (organization ''1'') ''picture'' ''1''
       [(''name'', JStr ''X'')]
     = (Inr (picture_item (JStr ''X'')),
        \<lparr>rows = [((''organization-1'', ''picture-1''), picture_item (JStr ''X''))],
         counters = [(''picture'', 1)],
         calls = [OpIncrementID, OpPutItem, OpUpdateItem]\<rparr>) \<and>
   get_prop ''name'' (picture_item (JStr ''X'')) = Some (JStr ''X'') \<and>
   get_prop ''tags'' (picture_item (JStr ''X'')) = get_prop ''tags'' (picture_item (JStr ''Untitled'')) \<and>
   get_prop ''contentJSON'' (picture_item (JStr ''X''))
     = get_prop ''contentJSON'' (picture_item (JStr ''Untitled''))"
proof -
  have existing: "map_of (rows store_with_picture)
      (uniqueIDForOwner (organization ''1''), uniqueIDForTypeAndID ''picture'' ''1'')
      = Some (picture_item (JStr ''Untitled''))"
    by (simp add: store_with_picture_def uniqueIDForOwner_def uniqueIDForTypeAndID_def
        organization_def)
  show ?thesis
    using existing updateItemWithChanges_sample
      updateItemWithChanges_name_only [OF existing updateItemWithChanges_sample]
    by simp
qed

subsection \<open>Reading an absent item\<close>

text \<open>
  C7. When no record is stored for the owner, type and id, \<open>readItem\<close> resolves to an
  absent item and raises no error, and the route that fetches one item answers 404.
\<close>

theorem readItem_absent:
  assumes absent:
      "map_of (rows st) (uniqueIDForOwner ow, uniqueIDForTypeAndID type ident) = None"
  shows "fst (readItem parse st ow type ident) = Inr None \<and>
         fst (handle_request parse stringify route_item
                (incoming \<lparr>ownerType = owner_type ow, ownerID = owner_id ow,
                            itemType = type, item_id = ident\<rparr> payload) st)
           = Response 404 None None"
proof -
  have read: "readItem parse st ow type ident = (Inr None, called OpGetItem st)"
    using absent by (simp add: readItem_def getItem_def)
  have ow: "\<lparr>owner_type = owner_type ow, owner_id = owner_id ow\<rparr> = ow"
    by simp
  have "handle_request parse stringify route_item
          (incoming \<lparr>ownerType = owner_type ow, ownerID = owner_id ow,
                      itemType = type, item_id = ident\<rparr> payload) st
        = (Response 404 None None, called OpGetItem st)"
    by (simp add: handle_request_def route_item_def owner_and_type_def incoming_def
        handlers_owner_def handlers_itemType_def handlers_item_def pre_owner_def pre_type_def
        get_prop_def ow read Boom_notFound_def)
  with read show ?thesis by simp
qed

theorem readItem_absent_witness:
  "map_of (rows empty_store)
     (uniqueIDForOwner (organization ''1''), uniqueIDForTypeAndID ''picture'' ''7'') = None \<and>
   fst (readItem parse_sample empty_store (organization ''1'') ''picture'' ''7'') = Inr None \<and>
   fst (handle_request parse_sample stringify_sample route_item
          (incoming \<lparr>ownerType = ''organization'', ownerID = ''1'',
                      itemType = ''picture'', item_id = ''7''\<rparr> JNull) empty_store)
     = Response 404 None None"
proof -
  have absent: "map_of (rows empty_store)
      (uniqueIDForOwner (organization ''1''), uniqueIDForTypeAndID ''picture'' ''7'') = None"
    by (simp add: empty_store_def)
  show ?thesis
    using absent
      readItem_absent [OF absent, where parse = parse_sample and stringify = stringify_sample
        and payload = JNull]
    by (simp add: organization_def)
qed

subsection \<open>What a PATCH request writes\<close>

text \<open>
  C8. For every \<open>PATCH\<close> request the whole validated payload is the changeset passed to
  \<open>updateItemWithChanges\<close>, so every field of the payload, \<open>version\<close>, \<open>rawTags\<close> and
  \<open>previewDestination\<close> among them, is written to the stored record with the value it
  has in the payload. In particular a \<open>contentJSON\<close> of the payload is stored as the
  object it is, not as a JSON-encoded string.
\<close>

theorem patch_writes_whole_payload:
  assumes validated: "patchValidator (JObj payload)"
    and keys: "distinct (map fst payload)"
    and field: "map_of payload k = Some v"
  shows "(case updateItemWithChanges st \<lparr>owner_type = ownerType ps, owner_id = ownerID ps\<rparr>
                 (itemType ps) (item_id ps) payload of
            (Inl e, st') \<Rightarrow> False
          | (Inr attributes, st') \<Rightarrow>
              handle_request parse stringify route_patch (incoming ps (JObj payload)) st =
                (Response 200 (Some (JObj attributes)) None, st')) \<and>
         (case map_of
                 (rows (snd (handle_request parse stringify route_patch
                               (incoming ps (JObj payload)) st)))
                 (uniqueIDForTypeAndID (ownerType ps) (ownerID ps),
                  uniqueIDForTypeAndID (itemType ps) (item_id ps)) of
            None \<Rightarrow> False
          | Some item \<Rightarrow> get_prop k item = Some v) \<and>
         (k = ''contentJSON'' \<longrightarrow> joi_object v)"
proof -
  have nonempty: "payload \<noteq> []"
    using field by auto
  note updated = updateItemWithChanges_result [OF nonempty patchValidator_keys [OF validated]]
  have "get_prop k (Object_assign old payload) = Some v" for old
    using keys field by (simp add: get_prop_Object_assign)
  moreover have "joi_object v" if "k = ''contentJSON''"
    using patchValidator_contentJSON [OF validated] field that by simp
  ultimately show ?thesis
    by (simp add: handle_request_patch [OF validated] updated update_conv' uniqueIDForOwner_def)
qed

theorem patch_writes_whole_payload_witness:
  "patchValidator (JObj patch_sample) \<and>
   distinct (map fst patch_sample) \<and>
   map_of patch_sample ''contentJSON'' = Some (JObj []) \<and>
   (case map_of
           (rows (snd (handle_request parse_sample stringify_sample route_patch
                         (incoming (picture_params ''1'' ''1'') (JObj patch_sample))
                         store_with_picture)))
           (uniqueIDForTypeAndID (ownerType (picture_params ''1'' ''1''))
              (ownerID (picture_params ''1'' ''1'')),
            uniqueIDForTypeAndID (itemType (picture_params ''1'' ''1''))
              (item_id (picture_params ''1'' ''1''))) of
      None \<Rightarrow> False
    | Some item \<Rightarrow> get_prop ''contentJSON'' item = Some (JObj [])) \<and>
   joi_object (JObj [])"
proof -
  have validated: "patchValidator (JObj patch_sample)"
    by (simp add: patch_sample_def only_keys_def optional_def get_prop_def)
  have keys: "distinct (map fst patch_sample)"
    by (simp add: patch_sample_def)
  have field: "map_of patch_sample ''contentJSON'' = Some (JObj [])"
    by (simp add: patch_sample_def)
  have object: "joi_object (JObj [])"
    by simp
  show ?thesis
    using validated keys field object
      patch_writes_whole_payload
        [OF validated keys field, where parse = parse_sample and stringify = stringify_sample
           and ps = "picture_params ''1'' ''1''" and st = store_with_picture]
    by blast
qed

subsection \<open>What the update operations return\<close>

text \<open>
  C9. \<open>updateNameForItem\<close>, \<open>updateTagsForItem\<close> and \<open>updateItemWithChanges\<close> return
  the store's attributes after the update (\<open>ALL_NEW\<close>) as they are, without
  \<open>formatItem\<close>. For an existing item, and for \<open>updateItemWithChanges\<close> a changeset
  that has a field and names neither a key attribute nor \<open>contentJSON\<close>, the call
  succeeds and the returned record is the record before the call with the submitted fields
  set to their new values and every other attribute as it was: its \<open>id\<close> is the
  composite \<open>type-id\<close> string, a \<open>contentJSON\<close> that was persisted as a serialized
  string comes back as that string, and the returned record is the stored one.
\<close>

theorem updates_return_raw_attributes:
  assumes existing:
      "map_of (rows st) (uniqueIDForOwner ow, uniqueIDForTypeAndID type ident) = Some old"
    and composite: "get_prop ''id'' old = Some (JStr (uniqueIDForTypeAndID type ident))"
    and serialized: "get_prop ''contentJSON'' old = Some (JStr str)"
    and keys: "distinct (map fst changes)"
    and field: "map_of changes k = Some v"
    and untouched: "''ownerID'' \<notin> fst ` set changes" "''id'' \<notin> fst ` set changes"
      "''contentJSON'' \<notin> fst ` set changes"
  shows "(case updateNameForItem st ow type ident newName of
            (Inl e, st') \<Rightarrow> False
          | (Inr new, st') \<Rightarrow>
              (\<forall>a. get_prop a new = (if a = ''name'' then Some newName else get_prop a old)) \<and>
              get_prop ''id'' new = Some (JStr (type @ ''-'' @ ident)) \<and>
              get_prop ''contentJSON'' new = Some (JStr str) \<and>
              map_of (rows st') (uniqueIDForOwner ow, uniqueIDForTypeAndID type ident)
                = Some new) \<and>
         (case updateTagsForItem st ow type ident newTags of
            (Inl e, st') \<Rightarrow> False
          | (Inr new, st') \<Rightarrow>
              (\<forall>a. get_prop a new = (if a = ''tags'' then Some newTags else get_prop a old)) \<and>
              get_prop ''id'' new = Some (JStr (type @ ''-'' @ ident)) \<and>
              get_prop ''contentJSON'' new = Some (JStr str) \<and>
              map_of (rows st') (uniqueIDForOwner ow, uniqueIDForTypeAndID type ident)
                = Some new) \<and>
         (case updateItemWithChanges st ow type ident changes of
            (Inl e, st') \<Rightarrow> False
          | (Inr new, st') \<Rightarrow>
              (\<forall>a. get_prop a new =
                     (case map_of changes a of None \<Rightarrow> get_prop a old | Some w \<Rightarrow> Some w)) \<and>
              get_prop k new = Some v \<and>
              get_prop ''id'' new = Some (JStr (type @ ''-'' @ ident)) \<and>
              get_prop ''contentJSON'' new = Some (JStr str) \<and>
              map_of (rows st') (uniqueIDForOwner ow, uniqueIDForTypeAndID type ident)
                = Some new)"
proof -
  have composite': "get_prop ''id'' old = Some (JStr (type @ ''-'' @ ident))"
    using composite by (simp add: uniqueIDForTypeAndID_def)
  have name: "updateNameForItem st ow type ident newName =
      (Inr (Object_assign old [(''name'', newName)]),
       called OpUpdateItem
         (st\<lparr>rows := AList.update (uniqueIDForOwner ow, uniqueIDForTypeAndID type ident)
            (Object_assign old [(''name'', newName)]) (rows st)\<rparr>))"
    unfolding updateNameForItem_as_changes
    by (rule updateItemWithChanges_existing [OF existing]) simp_all
  have tags: "updateTagsForItem st ow type ident newTags =
      (Inr (Object_assign old [(''tags'', newTags)]),
       called OpUpdateItem
         (st\<lparr>rows := AList.update (uniqueIDForOwner ow, uniqueIDForTypeAndID type ident)
            (Object_assign old [(''tags'', newTags)]) (rows st)\<rparr>))"
    unfolding updateTagsForItem_as_changes
    by (rule updateItemWithChanges_existing [OF existing]) simp_all
  have nonempty: "changes \<noteq> []"
    using field by auto
  have changed: "updateItemWithChanges st ow type ident changes =
      (Inr (Object_assign old changes),
       called OpUpdateItem
         (st\<lparr>rows := AList.update (uniqueIDForOwner ow, uniqueIDForTypeAndID type ident)
            (Object_assign old changes) (rows st)\<rparr>))"
    by (rule updateItemWithChanges_existing [OF existing nonempty untouched(1,2)])
  have absent: "map_of changes ''id'' = None" "map_of changes ''contentJSON'' = None"
    using untouched by (simp_all add: map_of_eq_None_iff)
  have first: "case updateNameForItem st ow type ident newName of
            (Inl e, st') \<Rightarrow> False
          | (Inr new, st') \<Rightarrow>
              (\<forall>a. get_prop a new = (if a = ''name'' then Some newName else get_prop a old)) \<and>
              get_prop ''id'' new = Some (JStr (type @ ''-'' @ ident)) \<and>
              get_prop ''contentJSON'' new = Some (JStr str) \<and>
              map_of (rows st') (uniqueIDForOwner ow, uniqueIDForTypeAndID type ident)
                = Some new"
    by (simp add: name get_prop_Object_assign_single composite' serialized update_conv')
  have second: "case updateTagsForItem st ow type ident newTags of
            (Inl e, st') \<Rightarrow> False
          | (Inr new, st') \<Rightarrow>
              (\<forall>a. get_prop a new = (if a = ''tags'' then Some newTags else get_prop a old)) \<and>
              get_prop ''id'' new = Some (JStr (type @ ''-'' @ ident)) \<and>
              get_prop ''contentJSON'' new = Some (JStr str) \<and>
              map_of (rows st') (uniqueIDForOwner ow, uniqueIDForTypeAndID type ident)
                = Some new"
    by (simp add: tags get_prop_Object_assign_single composite' serialized update_conv')
  have third: "case updateItemWithChanges st ow type ident changes of
            (Inl e, st') \<Rightarrow> False
          | (Inr new, st') \<Rightarrow>
              (\<forall>a. get_prop a new =
                     (case map_of changes a of None \<Rightarrow> get_prop a old | Some w \<Rightarrow> Some w)) \<and>
              get_prop k new = Some v \<and>
              get_prop ''id'' new = Some (JStr (type @ ''-'' @ ident)) \<and>
              get_prop ''contentJSON'' new = Some (JStr str) \<and>
              map_of (rows st') (uniqueIDForOwner ow, uniqueIDForTypeAndID type ident)
                = Some new"
    by (simp add: changed get_prop_Object_assign [OF keys] field absent composite' serialized
        update_conv')
  from first second third show ?thesis
    by (intro conjI)
qed

theorem updates_return_raw_attributes_witness:
  "map_of (rows store_with_picture)
     (uniqueIDForOwner (organization ''1''), uniqueIDForTypeAndID ''picture'' ''1'')
     = Some (picture_item (JStr ''Untitled'')) \<and>
   get_prop ''id'' (picture_item (JStr ''Untitled''))
     = Some (JStr (uniqueIDForTypeAndID ''picture'' ''1'')) \<and>
   get_prop ''contentJSON'' (picture_item (JStr ''Untitled'')) = Some (JStr ''{}'') \<and>
   distinct (map fst [(''rawTags'', JStr ''a,b'')]) \<and>
   map_of [(''rawTags'', JStr ''a,b'')] ''rawTags'' = Some (JStr ''a,b'') \<and>
   ''ownerID'' \<notin> fst ` set [(''rawTags'', JStr ''a,b'')] \<and>
   ''id'' \<notin> fst ` set [(''rawTags'', JStr ''a,b'')] \<and>
   ''contentJSON'' \<notin> fst ` set [(''rawTags'', JStr ''a,b'')] \<and>
   (case updateNameForItem store_with_picture (organization ''1'') ''picture'' ''1''
           (JStr ''X'') of
      (Inl e, st') \<Rightarrow> False
    | (Inr new, st') \<Rightarrow>
        get_prop ''name'' new = Some (JStr ''X'') \<and>
        get_prop ''id'' new = Some (JStr ''picture-1'') \<and>
        get_prop ''contentJSON'' new = Some (JStr ''{}'')) \<and>
   (case updateTagsForItem store_with_picture (organization ''1'') ''picture'' ''1''
           (JArr [JStr ''x'']) of
      (Inl e, st') \<Rightarrow> False
    | (Inr new, st') \<Rightarrow>
        get_prop ''tags'' new = Some (JArr [JStr ''x'']) \<and>
        get_prop ''id'' new = Some (JStr ''picture-1'') \<and>
        get_prop ''contentJSON'' new = Some (JStr ''{}'')) \<and>
   (case updateItemWithChanges store_with_picture (organization ''1'') ''picture'' ''1''
           [(''rawTags'', JStr ''a,b'')] of
      (Inl e, st') \<Rightarrow> False
    | (Inr new, st') \<Rightarrow>
        get_prop ''rawTags'' new = Some (JStr ''a,b'') \<and>
        get_prop ''id'' new = Some (JStr ''picture-1'') \<and>
        get_prop ''contentJSON'' new = Some (JStr ''{}''))"
proof -
  have composite: "get_prop ''id'' (picture_item (JStr ''Untitled''))
      = Some (JStr (uniqueIDForTypeAndID ''picture'' ''1''))"
    by (simp add: picture_item_def get_prop_def uniqueIDForTypeAndID_def)
  have serialized: "get_prop ''contentJSON'' (picture_item (JStr ''Untitled''))
      = Some (JStr ''{}'')"
    by (simp add: picture_item_def get_prop_def)
  have keys: "distinct (map fst [(''rawTags'', JStr ''a,b'')])"
    by simp
  have field: "map_of [(''rawTags'', JStr ''a,b'')] ''rawTags'' = Some (JStr ''a,b'')"
    by simp
  have untouched: "''ownerID'' \<notin> fst ` set [(''rawTags'', JStr ''a,b'')]"
      "''id'' \<notin> fst ` set [(''rawTags'', JStr ''a,b'')]"
      "''contentJSON'' \<notin> fst ` set [(''rawTags'', JStr ''a,b'')]"
    by simp_all
  show ?thesis
    using picture_existing composite serialized
      updates_return_raw_attributes
        [OF picture_existing composite serialized keys field untouched,
         where newName = "JStr ''X''" and newTags = "JArr [JStr ''x'']"]
    by (auto split: prod.splits sum.splits)
qed

subsection \<open>Updating an item that does not exist\<close>



subsection \<open>The content of returned records\<close>

text \<open>
  C1. Every operation that returns items should return \<open>contentJSON\<close> parsed. The read
  operations do; the update operations do not. After \<open>createItem\<close> with the content
  \<open>{}\<close>, \<open>readItem\<close> returns the object \<open>{}\<close> and the bare id \<open>1\<close>, while
  \<open>updateItemWithChanges\<close>, \<open>updateNameForItem\<close> and \<open>updateTagsForItem\<close> return the
  serialized string and the composite id \<open>picture-1\<close>.
\<close>

theorem update_returns_serialized_contentJSON:
  "createItem stringify_sample empty_store (organization ''1'') ''picture'' None None (JObj [])
     = (Inr (''picture'', 1), store_with_picture) \<and>
   fst (readItem parse_sample store_with_picture (organization ''1'') ''picture'' ''1'')
     = Inr (Some [(''ownerID'', JStr ''organization-1''),
                  (''id'', JStr ''1''),
                  (''type'', JStr ''picture''),
                  (''tags'', JArr []),
                  (''name'', JStr ''Untitled''),
                  (''contentJSON'', JObj [])]) \<and>
   fst (updateItemWithChanges store_with_picture (organization ''1'') ''picture'' ''1''
          [(''name'', JStr ''X'')])
     = Inr [(''ownerID'', JStr ''organization-1''),
        (''id'', JStr ''picture-1''),
        (''type'', JStr ''picture''),
        (''tags'', JArr []),
        (''name'', JStr ''X''),
        (''contentJSON'', JStr ''{}'')] \<and>
   fst (updateNameForItem store_with_picture (organization ''1'') ''picture'' ''1'' (JStr ''X''))
     = Inr [(''ownerID'', JStr ''organization-1''),
        (''id'', JStr ''picture-1''),
        (''type'', JStr ''picture''),
        (''tags'', JArr []),
        (''name'', JStr ''X''),
        (''contentJSON'', JStr ''{}'')] \<and>
   fst (updateTagsForItem store_with_picture (organization ''1'') ''picture'' ''1''
          (JArr [JStr ''x'']))
     = Inr [(''ownerID'', JStr ''organization-1''),
        (''id'', JStr ''picture-1''),
        (''type'', JStr ''picture''),
        (''tags'', JArr [JStr ''x'']),
        (''name'', JStr ''Untitled''),
        (''contentJSON'', JStr ''{}'')]"
proof -
  have read: "fst (readItem parse_sample store_with_picture (organization ''1'') ''picture'' ''1'')
      = Inr (Some [(''ownerID'', JStr ''organization-1''),
                   (''id'', JStr ''1''),
                   (''type'', JStr ''picture''),
                   (''tags'', JArr []),
                   (''name'', JStr ''Untitled''),
                   (''contentJSON'', JObj [])])"
    by (simp add: readItem_found [OF picture_existing formatItem_picture_item])
  have changes: "fst (updateItemWithChanges store_with_picture (organization ''1'') ''picture''
        ''1'' [(k, v)])
      = Inr (AList.update k v (picture_item (JStr ''Untitled'')))"
    if "k \<noteq> ''ownerID''" and "k \<noteq> ''id''" for k v
    using that
    by (simp add: updateItemWithChanges_existing [OF picture_existing] Object_assign_def)
  show ?thesis
    using createItem_sample read
    by (simp add: updateNameForItem_as_changes updateTagsForItem_as_changes changes
        picture_item_def)
qed

subsection \<open>Authorization on the declared routes\<close>

text \<open>
  C2. A request of an organization other than \<open>1\<close> should be refused by a prerequisite
  before any store call. \<open>authorizedForOwner\<close> does refuse such an owner, but no declared
  route has it among its prerequisites or as its handler: on the route that lists the items
  of an owner, the request of organization \<open>2\<close> queries the store and is answered with the
  items.
\<close>

theorem organization_2_lists_items:
  "route_items \<in> set routes \<and>
   AuthorizedForOwner \<notin> snd ` set (concat (concat (map route_pre routes))) \<and>
   AuthorizedForOwner \<notin> set (map route_handler routes) \<and>
   handle_request parse_sample stringify_sample route_items items_request_of_organization_2
       store_of_organization_2
     = (Response 200
          (Some (JArr [JObj [(''ownerID'', JStr ''organization-2''),
                             (''id'', JStr ''1''),
                             (''type'', JStr ''picture''),
                             (''tags'', JArr []),
                             (''name'', JStr ''Untitled''),
                             (''contentJSON'', JObj [])]]))
          None,
        store_of_organization_2\<lparr>calls := [OpQuery]\<rparr>) \<and>
   handlers_authorizedForOwner
       (items_request_of_organization_2
          \<lparr>req_pre := [(''owner'', JObj [(''type'', JStr ''organization''), (''id'', JStr ''2'')])]\<rparr>)
     = ReplyError (Boom 401)"
proof -
  have declared: "route_items \<in> set routes"
    by (simp add: routes_def)
  have unused: "AuthorizedForOwner \<notin> snd ` set (concat (concat (map route_pre routes)))"
    by (simp add: routes_def route_owner_def route_items_def route_items_count_def
        route_type_def route_type_count_def route_item_def route_create_def route_patch_def
        route_delete_def owner_and_type_def)
  have unused': "AuthorizedForOwner \<notin> set (map route_handler routes)"
    by (simp add: routes_def route_owner_def route_items_def route_items_count_def
        route_type_def route_type_count_def route_item_def route_create_def route_patch_def
        route_delete_def)
  have listed: "handle_request parse_sample stringify_sample route_items
      items_request_of_organization_2 store_of_organization_2
     = (Response 200
          (Some (JArr [JObj [(''ownerID'', JStr ''organization-2''),
                             (''id'', JStr ''1''),
                             (''type'', JStr ''picture''),
                             (''tags'', JArr []),
                             (''name'', JStr ''Untitled''),
                             (''contentJSON'', JObj [])]]))
          None,
        store_of_organization_2\<lparr>calls := [OpQuery]\<rparr>)"
    by (simp add: handle_request_def route_items_def items_request_of_organization_2_def
        incoming_def handlers_owner_def handlers_itemsForOwner_def pre_owner_def get_prop_def
        readAllItemsForOwner_def query_owner_def store_of_organization_2_def called_def
        uniqueIDForOwner_def uniqueIDForTypeAndID_def formatItem_def Object_assign_def
        formatID_def parse_sample_def)
  have rejected: "handlers_authorizedForOwner
       (items_request_of_organization_2
          \<lparr>req_pre := [(''owner'', JObj [(''type'', JStr ''organization''), (''id'', JStr ''2'')])]\<rparr>)
     = ReplyError (Boom 401)"
    by (simp add: handlers_authorizedForOwner_def pre_owner_def get_prop_def
        Boom_unauthorized_def)
  show ?thesis
    using declared unused unused' listed rejected by blast
qed

end
